theory Spec2Isabelle
  imports Complex_Main
begin

section \<open>Grammar engine: class LSystem (LSystem.h, LSystem.cpp)\<close>

text \<open>
  The private members of the class, in declaration order. \<open>std::map<char, std::string>\<close>
  is a partial map from characters to strings; \<open>std::string\<close> is a list of 8-bit
  characters. The \<open>float\<close> member \<open>angle\<close> is read and written only by its accessors and
  is idealised as a real number. \<open>currentGeneration\<close> is a C++ \<open>int\<close>; it is reset to 0
  by \<open>generate\<close> and incremented once per pass, and the pass counter \<open>gen\<close> of the same
  type stays below the \<open>int\<close> argument, so it never leaves the range of \<open>int\<close>.
\<close>

record LSystem =
  axiom :: string
  rules :: "char \<rightharpoonup> string"
  currentString :: string
  angle :: real
  currentGeneration :: int

text \<open>\<open>LSystem::LSystem() : angle(0.0F), currentGeneration(0) {}\<close>\<close>

definition LSystem_new :: LSystem where
  "LSystem_new =
     \<lparr>axiom = [], rules = Map.empty, currentString = [], angle = 0, currentGeneration = 0\<rparr>"

text \<open>
  The body of the outer loop of \<open>LSystem::generate\<close> builds \<open>nextString\<close> by a range-for
  over \<open>currentString\<close>:
  \<^verbatim>\<open>
    for (char symbol : currentString) {
        if (rules.find(symbol) != rules.end()) { nextString += rules[symbol]; }
        else { nextString += symbol; }
    }
  \<close>
  The third argument is the \<open>nextString\<close> built so far. \<open>rules[symbol]\<close> is only evaluated
  for a key that is present, so it never inserts.
\<close>

fun rewritePass :: "(char \<rightharpoonup> string) \<Rightarrow> string \<Rightarrow> string \<Rightarrow> string" where
  "rewritePass rs [] nextString = nextString"
| "rewritePass rs (symbol # cs) nextString =
     rewritePass rs cs
       (case rs symbol of
          Some replacement \<Rightarrow> nextString @ replacement
        | None \<Rightarrow> nextString @ [symbol])"

text \<open>
  The outer loop \<open>for (int gen = 0; gen < generations; gen++)\<close>; the first argument is the
  number of passes still to run.
\<close>

fun generateLoop :: "nat \<Rightarrow> LSystem \<Rightarrow> LSystem" where
  "generateLoop 0 L = L"
| "generateLoop (Suc k) L =
     generateLoop k
       (L\<lparr>currentString := rewritePass (rules L) (currentString L) [],
          currentGeneration := currentGeneration L + 1\<rparr>)"

text \<open>
  \<open>void LSystem::generate(int generations)\<close>: the working string restarts from the axiom;
  a non-positive argument runs no pass. The two lines the function prints to \<open>std::cout\<close>
  are not part of the state and are left out, as is \<open>loadRules\<close>, which fills the same
  members from a file.
\<close>

definition generate :: "LSystem \<Rightarrow> int \<Rightarrow> LSystem" where
  "generate L generations =
     generateLoop (nat generations) (L\<lparr>currentString := axiom L, currentGeneration := 0\<rparr>)"

definition getString :: "LSystem \<Rightarrow> string" where
  "getString L = currentString L"

definition getAxiom :: "LSystem \<Rightarrow> string" where
  "getAxiom L = axiom L"

definition getGeneration :: "LSystem \<Rightarrow> int" where
  "getGeneration L = currentGeneration L"

definition reset :: "LSystem \<Rightarrow> LSystem" where
  "reset L = L\<lparr>currentString := axiom L, currentGeneration := 0\<rparr>"

definition setAxiom :: "LSystem \<Rightarrow> string \<Rightarrow> LSystem" where
  "setAxiom L newAxiom = L\<lparr>axiom := newAxiom, currentString := newAxiom, currentGeneration := 0\<rparr>"

definition addRule :: "LSystem \<Rightarrow> char \<Rightarrow> string \<Rightarrow> LSystem" where
  "addRule L symbol replacement = L\<lparr>rules := (rules L)(symbol \<mapsto> replacement)\<rparr>"

definition clearRules :: "LSystem \<Rightarrow> LSystem" where
  "clearRules L = L\<lparr>rules := Map.empty\<rparr>"

text \<open>The two grammars the specification names, built through the public setters.\<close>

definition fibonacciSystem :: LSystem where
  "fibonacciSystem =
     addRule (addRule (setAxiom LSystem_new ''A'') (CHR ''A'') ''AB'') (CHR ''B'') ''A''"

definition kochSystem :: LSystem where
  "kochSystem = addRule (setAxiom LSystem_new ''F'') (CHR ''F'') ''F+F--F+F''"

section \<open>Turtle interpreter: class TurtleGraphics (TurtleGraphics.h, TurtleGraphics.cpp)\<close>

subsection \<open>Vectors\<close>

text \<open>
  \<open>glm::vec3\<close>, \<open>glm::vec4\<close> and \<open>glm::mat4\<close> (four columns) of the external GLM library.
  The \<open>float\<close> components are idealised as real numbers: every operation below is the
  exact one, without rounding, infinities or NaN. The components \<open>r\<close>, \<open>g\<close>, \<open>b\<close> of a
  colour are the components \<open>x\<close>, \<open>y\<close>, \<open>z\<close> of the same vector.
\<close>

datatype vec3 = Vec3 (vx: real) (vy: real) (vz: real)

datatype vec4 = Vec4 real real real real

datatype mat4 = Mat4 vec4 vec4 vec4 vec4

text \<open>\<open>operator+(vec3, vec3)\<close> and \<open>operator*(vec3, float)\<close>, componentwise.\<close>

definition vadd :: "vec3 \<Rightarrow> vec3 \<Rightarrow> vec3" where
  "vadd a b = Vec3 (vx a + vx b) (vy a + vy b) (vz a + vz b)"

definition vscale :: "vec3 \<Rightarrow> real \<Rightarrow> vec3" where
  "vscale a s = Vec3 (vx a * s) (vy a * s) (vz a * s)"

text \<open>
  \<open>glm::dot\<close>, \<open>glm::cross\<close>, \<open>glm::normalize\<close> (the vector times the inverse square root
  of its squared length) and \<open>glm::radians\<close>. On the zero vector \<open>normalize3\<close> is the zero
  vector here, since \<open>1 / 0 = 0\<close> in HOL, where GLM gives NaN components; no result
  below depends on its value there.
\<close>

definition dot :: "vec3 \<Rightarrow> vec3 \<Rightarrow> real" where
  "dot a b = vx a * vx b + vy a * vy b + vz a * vz b"

definition cross :: "vec3 \<Rightarrow> vec3 \<Rightarrow> vec3" where
  "cross a b =
     Vec3 (vy a * vz b - vy b * vz a) (vz a * vx b - vz b * vx a) (vx a * vy b - vx b * vy a)"

definition normalize3 :: "vec3 \<Rightarrow> vec3" where
  "normalize3 v = vscale v (1 / sqrt (dot v v))"

definition radians :: "real \<Rightarrow> real" where
  "radians degrees = degrees * (pi / 180)"

definition vec4_of :: "vec3 \<Rightarrow> real \<Rightarrow> vec4" where
  "vec4_of v w = Vec4 (vx v) (vy v) (vz v) w"

subsection \<open>Data\<close>

text \<open>
  \<open>struct TurtleState\<close> with its default member initialisers. \<open>depth\<close> is a C++ \<open>int\<close>
  that is only ever incremented by \<open>[\<close>; it is modelled unbounded.
\<close>

record TurtleState =
  position :: vec3
  heading :: vec3
  left :: vec3
  up :: vec3
  width :: real
  color :: vec3
  depth :: int

definition TurtleState_default :: TurtleState where
  "TurtleState_default =
     \<lparr>position = Vec3 0 0 0, heading = Vec3 0 1 0, left = Vec3 (- 1) 0 0, up = Vec3 0 0 1,
      width = 0.02, color = Vec3 0.45 0.30 0.15, depth = 0\<rparr>"

text \<open>
  \<open>struct BranchData\<close>. The member \<open>end\<close> is written \<open>end'\<close> and the member \<open>color\<close> is
  written \<open>b_color\<close>, since the first is reserved and the second is a field of
  \<open>TurtleState\<close> already.
\<close>

record BranchData =
  start :: vec3
  end' :: vec3
  radiusStart :: real
  radiusEnd :: real
  b_color :: vec3

text \<open>\<open>struct DecorationData\<close>, its members prefixed with \<open>d_\<close> where the name is taken;
  \<open>d_type\<close> is 0 for a leaf and 1 for a flower.\<close>

record DecorationData =
  d_position :: vec3
  orientation :: mat4
  d_color :: vec3
  d_size :: real
  d_type :: int

text \<open>
  The members of \<open>class TurtleGraphics\<close> that interpretation reads or writes, with their
  default member initialisers. \<open>std::stack<TurtleState>\<close> is a list whose head is the top;
  the two \<open>std::vector\<close>s grow at the end. The OpenGL handles, \<open>m_initialized\<close>,
  \<open>m_renderMode\<close> and \<open>m_showFloor\<close> belong to rendering and are left out.
\<close>

record TurtleGraphics =
  m_is3D :: bool
  m_currentState :: TurtleState
  m_stateStack :: "TurtleState list"
  m_branches :: "BranchData list"
  m_decorations :: "DecorationData list"
  m_leaves :: "DecorationData list"
  m_flowers :: "DecorationData list"
  m_stepSize :: real
  m_initialWidth :: real
  m_widthDecay :: real
  m_leafSize :: real
  m_branchColor :: vec3
  m_leafColor :: vec3
  m_flowerColor :: vec3

definition TurtleGraphics_new :: TurtleGraphics where
  "TurtleGraphics_new =
     \<lparr>m_is3D = False, m_currentState = TurtleState_default, m_stateStack = [],
      m_branches = [], m_decorations = [], m_leaves = [], m_flowers = [],
      m_stepSize = 0.08, m_initialWidth = 0.02, m_widthDecay = 0.7, m_leafSize = 0.08,
      m_branchColor = Vec3 0.4 0.25 0.1, m_leafColor = Vec3 0.15 0.55 0.15,
      m_flowerColor = Vec3 1.0 0.45 0.7\<rparr>"

definition set3DMode :: "TurtleGraphics \<Rightarrow> bool \<Rightarrow> TurtleGraphics" where
  "set3DMode T enable = T\<lparr>m_is3D := enable\<rparr>"

definition setStepSize :: "TurtleGraphics \<Rightarrow> real \<Rightarrow> TurtleGraphics" where
  "setStepSize T step = T\<lparr>m_stepSize := step\<rparr>"

definition setInitialWidth :: "TurtleGraphics \<Rightarrow> real \<Rightarrow> TurtleGraphics" where
  "setInitialWidth T w = T\<lparr>m_initialWidth := w\<rparr>"

definition setWidthDecay :: "TurtleGraphics \<Rightarrow> real \<Rightarrow> TurtleGraphics" where
  "setWidthDecay T decay = T\<lparr>m_widthDecay := decay\<rparr>"

definition getBranchCount :: "TurtleGraphics \<Rightarrow> nat" where
  "getBranchCount T = length (m_branches T)"

definition getDecorationCount :: "TurtleGraphics \<Rightarrow> nat" where
  "getDecorationCount T = length (m_decorations T)"

subsection \<open>Commands\<close>

text \<open>
  \<open>TurtleGraphics::rotateAroundAxis\<close>, Rodrigues' formula:
  \<^verbatim>\<open>vec * cosA + glm::cross(k, vec) * sinA + k * glm::dot(k, vec) * (1.0F - cosA)\<close>
  with \<open>k = glm::normalize(axis)\<close>.
\<close>

definition rotateAroundAxis :: "vec3 \<Rightarrow> vec3 \<Rightarrow> real \<Rightarrow> vec3" where
  "rotateAroundAxis vec axis angleDeg =
     (let angleRad = radians angleDeg;
          cosA = cos angleRad;
          sinA = sin angleRad;
          k = normalize3 axis
      in vadd (vadd (vscale vec cosA) (vscale (cross k vec) sinA))
              (vscale (vscale k (dot k vec)) (1 - cosA)))"

text \<open>The orientation matrix of a leaf or flower, as both decoration cases build it.\<close>

definition decorationOrientation :: "TurtleState \<Rightarrow> mat4" where
  "decorationOrientation st =
     (let forward = normalize3 (heading st);
          right = normalize3 (cross forward (up st));
          up' = cross right forward
      in Mat4 (vec4_of right 0) (vec4_of forward 0) (vec4_of up' 0) (Vec4 0 0 0 1))"

text \<open>The yaw axis of \<open>+\<close>, \<open>-\<close> and \<open>|\<close>:
  \<open>m_is3D ? m_currentState.up : glm::vec3(0.0F, 0.0F, 1.0F)\<close>.\<close>

definition yawAxis :: "TurtleGraphics \<Rightarrow> vec3" where
  "yawAxis T = (if m_is3D T then up (m_currentState T) else Vec3 0 0 1)"

text \<open>The case labels \<open>'F'\<close>, \<open>'G'\<close>, \<open>'A'\<close>, \<open>'B'\<close> of the first case of the switch.\<close>

definition drawForward :: "char \<Rightarrow> bool" where
  "drawForward cmd =
     (cmd = CHR ''F'' \<or> cmd = CHR ''G'' \<or> cmd = CHR ''A'' \<or> cmd = CHR ''B'')"

text \<open>
  \<open>void TurtleGraphics::processCommand(char cmd, float angle)\<close>: the switch, one branch per
  case in the order of the source; the parameter \<open>angle\<close> is written \<open>delta\<close>, the name
  of the rotation increment in the header, since \<open>angle\<close> is a member of \<open>LSystem\<close>.
  \<open>CHR 0x5C\<close> is the backslash and \<open>CHR 0x27\<close> the
  apostrophe. None of the pitch and roll cases tests \<open>m_is3D\<close>.
\<close>

definition processCommand :: "TurtleGraphics \<Rightarrow> char \<Rightarrow> real \<Rightarrow> TurtleGraphics" where
  "processCommand T cmd delta =
     (let st = m_currentState T in
      if drawForward cmd then
        (let endPos = vadd (position st) (vscale (heading st) (m_stepSize T));
             branch = \<lparr>start = position st, end' = endPos, radiusStart = width st,
                       radiusEnd = width st * m_widthDecay T, b_color = color st\<rparr>
         in T\<lparr>m_branches := m_branches T @ [branch],
               m_currentState := st\<lparr>position := endPos\<rparr>\<rparr>)
      else if cmd = CHR ''f'' then
        T\<lparr>m_currentState :=
            st\<lparr>position := vadd (position st) (vscale (heading st) (m_stepSize T))\<rparr>\<rparr>
      else if cmd = CHR ''+'' then
        (let axis = yawAxis T
         in T\<lparr>m_currentState :=
                st\<lparr>heading := rotateAroundAxis (heading st) axis delta,
                    left := rotateAroundAxis (left st) axis delta\<rparr>\<rparr>)
      else if cmd = CHR ''-'' then
        (let axis = yawAxis T
         in T\<lparr>m_currentState :=
                st\<lparr>heading := rotateAroundAxis (heading st) axis (- delta),
                    left := rotateAroundAxis (left st) axis (- delta)\<rparr>\<rparr>)
      else if cmd = CHR ''&'' then
        T\<lparr>m_currentState :=
            st\<lparr>heading := rotateAroundAxis (heading st) (left st) delta,
                up := rotateAroundAxis (up st) (left st) delta\<rparr>\<rparr>
      else if cmd = CHR ''^'' then
        T\<lparr>m_currentState :=
            st\<lparr>heading := rotateAroundAxis (heading st) (left st) (- delta),
                up := rotateAroundAxis (up st) (left st) (- delta)\<rparr>\<rparr>
      else if cmd = CHR 0x5C then
        T\<lparr>m_currentState :=
            st\<lparr>left := rotateAroundAxis (left st) (heading st) delta,
                up := rotateAroundAxis (up st) (heading st) delta\<rparr>\<rparr>
      else if cmd = CHR ''/'' then
        T\<lparr>m_currentState :=
            st\<lparr>left := rotateAroundAxis (left st) (heading st) (- delta),
                up := rotateAroundAxis (up st) (heading st) (- delta)\<rparr>\<rparr>
      else if cmd = CHR ''|'' then
        (let axis = yawAxis T
         in T\<lparr>m_currentState :=
                st\<lparr>heading := rotateAroundAxis (heading st) axis 180,
                    left := rotateAroundAxis (left st) axis 180\<rparr>\<rparr>)
      else if cmd = CHR ''['' then
        T\<lparr>m_stateStack := st # m_stateStack T,
          m_currentState := st\<lparr>depth := depth st + 1, width := width st * m_widthDecay T\<rparr>\<rparr>
      else if cmd = CHR '']'' then
        (case m_stateStack T of
           [] \<Rightarrow> T
         | saved # rest \<Rightarrow> T\<lparr>m_currentState := saved, m_stateStack := rest\<rparr>)
      else if cmd = CHR ''L'' \<or> cmd = CHR ''l'' then
        (let leaf = \<lparr>d_position = position st, orientation = decorationOrientation st,
                     d_color = m_leafColor T, d_size = m_leafSize T, d_type = 0\<rparr>
         in T\<lparr>m_decorations := m_decorations T @ [leaf]\<rparr>)
      else if cmd = CHR ''K'' \<or> cmd = CHR ''k'' then
        (let flower = \<lparr>d_position = position st, orientation = decorationOrientation st,
                       d_color = m_flowerColor T, d_size = m_leafSize T * 1.5, d_type = 1\<rparr>
         in T\<lparr>m_decorations := m_decorations T @ [flower]\<rparr>)
      else if cmd = CHR ''!'' then
        T\<lparr>m_currentState := st\<lparr>width := width st * m_widthDecay T\<rparr>\<rparr>
      else if cmd = CHR 0x27 then
        T\<lparr>m_currentState :=
            st\<lparr>color := Vec3 (max 0 (vx (color st) - 0.02)) (min 1 (vy (color st) + 0.05))
                              (vz (color st))\<rparr>\<rparr>
      else T)"

text \<open>The loop \<open>for (char cmd : lsystemString) processCommand(cmd, angle);\<close>.\<close>

fun processAll :: "TurtleGraphics \<Rightarrow> string \<Rightarrow> real \<Rightarrow> TurtleGraphics" where
  "processAll T [] delta = T"
| "processAll T (cmd # cs) delta = processAll (processCommand T cmd delta) cs delta"

definition clear :: "TurtleGraphics \<Rightarrow> TurtleGraphics" where
  "clear T = T\<lparr>m_branches := [], m_decorations := []\<rparr>"

text \<open>
  \<open>uploadDecorationData\<close> re-partitions the decorations into leaves and flowers unless
  there are none; the buffer it sends to the GPU, like the whole of \<open>uploadBranchData\<close>,
  changes no member modelled here.
\<close>

definition uploadDecorationData :: "TurtleGraphics \<Rightarrow> TurtleGraphics" where
  "uploadDecorationData T =
     (if m_decorations T = [] then T
      else T\<lparr>m_leaves := filter (\<lambda>decor. d_type decor = 0) (m_decorations T),
             m_flowers := filter (\<lambda>decor. \<not> d_type decor = 0) (m_decorations T)\<rparr>)"

text \<open>
  \<open>void TurtleGraphics::interpret(const std::string& lsystemString, float angle)\<close>: clear
  the geometry, reset the turtle (a default \<open>TurtleState\<close> with the configured width and
  branch colour), empty the stack, process every command, upload. It is written
  \<open>interpret'\<close>, the plain name being reserved.
\<close>

definition interpret' :: "TurtleGraphics \<Rightarrow> string \<Rightarrow> real \<Rightarrow> TurtleGraphics" where
  "interpret' T lsystemString delta =
     (let T1 = clear T;
          T2 = T1\<lparr>m_currentState :=
                   TurtleState_default\<lparr>width := m_initialWidth T1, color := m_branchColor T1\<rparr>\<rparr>;
          T3 = T2\<lparr>m_stateStack := []\<rparr>;
          T4 = processAll T3 lsystemString delta
      in uploadDecorationData T4)"

text \<open>
  A string has balanced brackets when no prefix closes more \<open>[\<close> than it has opened and
  the whole string closes all of them; the first argument counts the brackets open so far.
\<close>

fun balancedFrom :: "nat \<Rightarrow> string \<Rightarrow> bool" where
  "balancedFrom n [] = (n = 0)"
| "balancedFrom n (c # cs) =
     (if c = CHR ''['' then balancedFrom (Suc n) cs
      else if c = CHR '']'' then 0 < n \<and> balancedFrom (n - 1) cs
      else balancedFrom n cs)"

definition balanced :: "string \<Rightarrow> bool" where
  "balanced s = balancedFrom 0 s"

text \<open>The two commands that multiply the current width by \<open>m_widthDecay\<close>: \<open>[\<close> and \<open>!\<close>.\<close>

definition narrows :: "char \<Rightarrow> bool" where
  "narrows cmd = (cmd = CHR ''['' \<or> cmd = CHR ''!'')"

section \<open>Properties of the grammar engine\<close>

lemma rewritePass_step:
  "rewritePass rs (c # cs) acc =
     rewritePass rs cs (acc @ (case rs c of Some r \<Rightarrow> r | None \<Rightarrow> [c]))"
  by (simp split: option.split)

lemma rewritePass_acc: "rewritePass rs cs acc = acc @ rewritePass rs cs []"
proof (induction cs arbitrary: acc)
  case Nil
  show ?case by simp
next
  case (Cons c cs)
  let ?r = "case rs c of Some r \<Rightarrow> r | None \<Rightarrow> [c]"
  have "rewritePass rs (c # cs) acc = rewritePass rs cs (acc @ ?r)"
    by (rule rewritePass_step)
  also have "\<dots> = (acc @ ?r) @ rewritePass rs cs []"
    by (rule Cons.IH)
  also have "\<dots> = acc @ rewritePass rs cs ([] @ ?r)"
    using Cons.IH [of ?r] by simp
  also have "rewritePass rs cs ([] @ ?r) = rewritePass rs (c # cs) []"
    by (rule rewritePass_step [symmetric])
  finally show ?case .
qed

lemma rewritePass_Cons:
  "rewritePass rs (c # cs) [] =
     (case rs c of Some r \<Rightarrow> r | None \<Rightarrow> [c]) @ rewritePass rs cs []"
  using rewritePass_acc [of rs cs "case rs c of Some r \<Rightarrow> r | None \<Rightarrow> [c]"]
  by (simp add: rewritePass_step del: rewritePass.simps)

lemma rewritePass_append:
  "rewritePass rs (us @ vs) [] = rewritePass rs us [] @ rewritePass rs vs []"
proof (induction us)
  case Nil
  show ?case by simp
next
  case (Cons c us)
  have "rewritePass rs ((c # us) @ vs) [] = rewritePass rs (c # (us @ vs)) []"
    by simp
  also have "\<dots> = (case rs c of Some r \<Rightarrow> r | None \<Rightarrow> [c]) @ rewritePass rs (us @ vs) []"
    by (rule rewritePass_Cons)
  also have "\<dots> = ((case rs c of Some r \<Rightarrow> r | None \<Rightarrow> [c]) @ rewritePass rs us [])
                    @ rewritePass rs vs []"
    by (simp add: Cons.IH)
  also have "(case rs c of Some r \<Rightarrow> r | None \<Rightarrow> [c]) @ rewritePass rs us []
               = rewritePass rs (c # us) []"
    by (rule rewritePass_Cons [symmetric])
  finally show ?case .
qed

lemma generate_one:
  "currentString (generate L 1) = rewritePass (rules L) (axiom L) []"
  by (simp add: generate_def)

lemma generateLoop_frame:
  "axiom (generateLoop k L) = axiom L \<and> rules (generateLoop k L) = rules L \<and>
   angle (generateLoop k L) = angle L"
  by (induction k arbitrary: L) simp_all

lemma generateLoop_cong:
  "rules L1 = rules L2 \<Longrightarrow> currentString L1 = currentString L2 \<Longrightarrow>
   currentGeneration L1 = currentGeneration L2 \<Longrightarrow>
   currentString (generateLoop k L1) = currentString (generateLoop k L2) \<and>
   currentGeneration (generateLoop k L1) = currentGeneration (generateLoop k L2)"
proof (induction k arbitrary: L1 L2)
  case 0
  then show ?case by simp
next
  case (Suc k)
  show ?case
    unfolding generateLoop.simps
    by (rule Suc.IH) (simp_all add: Suc.prems)
qed

lemma generateLoop_generation:
  "currentGeneration (generateLoop k L) = currentGeneration L + int k"
  by (induction k arbitrary: L) simp_all

text \<open>
  C1. For the grammar with axiom \<open>A\<close> and rules \<open>A \<rightarrow> AB\<close>, \<open>B \<rightarrow> A\<close>, \<open>generate(n)\<close>
  followed by \<open>getString()\<close> returns \<open>A\<close>, \<open>AB\<close>, \<open>ABA\<close>, \<open>ABAAB\<close>, \<open>ABAABABA\<close> for
  \<open>n = 0, 1, 2, 3, 4\<close>, of lengths 1, 2, 3, 5, 8, and \<open>getGeneration()\<close> returns \<open>n\<close>.
\<close>

theorem fibonacci_words:
  "map (\<lambda>n. getString (generate fibonacciSystem n)) [0, 1, 2, 3, 4]
     = [''A'', ''AB'', ''ABA'', ''ABAAB'', ''ABAABABA''] \<and>
   map (\<lambda>n. length (getString (generate fibonacciSystem n))) [0, 1, 2, 3, 4]
     = [1, 2, 3, 5, 8] \<and>
   map (\<lambda>n. getGeneration (generate fibonacciSystem n)) [0, 1, 2, 3, 4]
     = [0, 1, 2, 3, 4]"
  by (simp add: generate_def getString_def getGeneration_def fibonacciSystem_def addRule_def
      setAxiom_def LSystem_new_def eval_nat_numeral)

text \<open>
  C5, as the code behaves. With axiom \<open>F\<close> and the rule \<open>F \<rightarrow> F+F--F+F\<close> the strings of
  generations 0, 1, 2 have lengths 1, 8, 36: the replacement \<open>F+F--F+F\<close> has eight symbols
  (four \<open>F\<close> and four constants), generation 1 is exactly that replacement, and
  generation 2 replaces each of its four \<open>F\<close> by the rule and copies the four constants.
\<close>

theorem koch_lengths:
  "map (\<lambda>n. length (getString (generate kochSystem n))) [0, 1, 2] = [1, 8, 36] \<and>
   getString (generate kochSystem 0) = ''F'' \<and>
   getString (generate kochSystem 1) = ''F+F--F+F'' \<and>
   getString (generate kochSystem 2) =
     ''F+F--F+F'' @ ''+'' @ ''F+F--F+F'' @ ''--'' @ ''F+F--F+F'' @ ''+'' @ ''F+F--F+F''"
  by (simp add: generate_def getString_def kochSystem_def addRule_def setAxiom_def
      LSystem_new_def eval_nat_numeral)

text \<open>
  C5, as stated, fails: the lengths at generations 0, 1, 2 are not 1, 5, 25.
\<close>

theorem koch_lengths_counterexample:
  "map (\<lambda>n. length (getString (generate kochSystem n))) [0, 1, 2] \<noteq> [1, 5, 25]"
  by (simp add: generate_def getString_def kochSystem_def addRule_def setAxiom_def
      LSystem_new_def eval_nat_numeral)

text \<open>
  C6. For every axiom and rule set and every symbol \<open>s\<close> with no entry in the rule map,
  \<open>generate(1)\<close> copies each occurrence of \<open>s\<close> unchanged in place: wherever the axiom
  splits as \<open>pre\<close>, \<open>s\<close>, \<open>post\<close>, the result is the rewriting of \<open>pre\<close>, then \<open>s\<close>
  itself, then the rewriting of \<open>post\<close>.
\<close>

theorem generate_identity_without_rule:
  assumes "rules L s = None" and "axiom L = pre @ s # post"
  shows "getString (generate L 1) =
           getString (generate (L\<lparr>axiom := pre\<rparr>) 1) @ s #
           getString (generate (L\<lparr>axiom := post\<rparr>) 1)"
proof -
  have "rewritePass (rules L) (pre @ s # post) [] =
          rewritePass (rules L) pre [] @ rewritePass (rules L) (s # post) []"
    by (rule rewritePass_append)
  also have "rewritePass (rules L) (s # post) [] = [s] @ rewritePass (rules L) post []"
    using rewritePass_Cons [of "rules L" s post] assms(1) by simp
  finally show ?thesis
    using assms(2) by (simp add: getString_def generate_one)
qed

theorem generate_identity_without_rule_witness:
  "rules (setAxiom fibonacciSystem ''AXB'') (CHR ''X'') = None \<and>
   axiom (setAxiom fibonacciSystem ''AXB'') = ''A'' @ CHR ''X'' # ''B'' \<and>
   getString (generate (setAxiom fibonacciSystem ''AXB'') 1) = ''ABXA''"
  using generate_identity_without_rule
    [of "setAxiom fibonacciSystem ''AXB''" "CHR ''X''" "''A''" "''B''"]
  by (simp add: generate_def getString_def fibonacciSystem_def addRule_def setAxiom_def
      LSystem_new_def)

text \<open>
  C8. \<open>generate(n)\<close> is deterministic and idempotent: its result depends on the axiom,
  the rule map and \<open>n\<close> only. Two objects with the same axiom and rules give the same
  string and generation counter whatever their working strings and counters were, since
  each call restarts from the axiom; so a second call on the object left by any earlier
  call gives what the first call on a fresh object gives.
\<close>

theorem generate_deterministic:
  assumes "axiom L1 = axiom L2" and "rules L1 = rules L2"
  shows "getString (generate L1 n) = getString (generate L2 n) \<and>
         getGeneration (generate L1 n) = getGeneration (generate L2 n) \<and>
         getString (generate (generate L1 m) n) = getString (generate L1 n) \<and>
         getString (generate (generate L1 n) n) = getString (generate L1 n)"
proof -
  have same: "currentString (generate A n) = currentString (generate B n) \<and>
              currentGeneration (generate A n) = currentGeneration (generate B n)"
    if "axiom A = axiom B" and "rules A = rules B" for A B :: LSystem
    unfolding generate_def
    by (rule generateLoop_cong) (simp_all add: that)
  have keep: "axiom (generate A k) = axiom A \<and> rules (generate A k) = rules A"
    for A :: LSystem and k
    by (simp add: generate_def generateLoop_frame)
  show ?thesis
    using same [OF assms] same [of "generate L1 m" L1] same [of "generate L1 n" L1] keep
    by (simp add: getString_def getGeneration_def)
qed

theorem generate_deterministic_witness:
  "axiom (reset (generate fibonacciSystem 2)) = axiom fibonacciSystem \<and>
   rules (reset (generate fibonacciSystem 2)) = rules fibonacciSystem \<and>
   getString (generate (reset (generate fibonacciSystem 2)) 3) = ''ABAAB'' \<and>
   getString (generate (generate (reset (generate fibonacciSystem 2)) 1) 3) = ''ABAAB''"
proof -
  have a: "axiom (reset (generate fibonacciSystem 2)) = axiom fibonacciSystem"
    by (simp add: reset_def generate_def generateLoop_frame)
  have r: "rules (reset (generate fibonacciSystem 2)) = rules fibonacciSystem"
    by (simp add: reset_def generate_def generateLoop_frame)
  have v: "getString (generate fibonacciSystem 3) = ''ABAAB''"
    by (simp add: generate_def getString_def fibonacciSystem_def addRule_def setAxiom_def
        LSystem_new_def eval_nat_numeral)
  show ?thesis
    using a r v generate_deterministic [OF a r, of 3 1] by simp
qed

section \<open>Properties of the turtle interpreter\<close>

subsection \<open>The effect of single commands\<close>

lemma processAll_append:
  "processAll T (xs @ ys) d = processAll (processAll T xs d) ys d"
  by (induction xs arbitrary: T) simp_all

lemma processCommand_config:
  "m_is3D (processCommand T c d) = m_is3D T \<and>
   m_stepSize (processCommand T c d) = m_stepSize T \<and>
   m_initialWidth (processCommand T c d) = m_initialWidth T \<and>
   m_widthDecay (processCommand T c d) = m_widthDecay T \<and>
   m_leafSize (processCommand T c d) = m_leafSize T \<and>
   m_branchColor (processCommand T c d) = m_branchColor T \<and>
   m_leafColor (processCommand T c d) = m_leafColor T \<and>
   m_flowerColor (processCommand T c d) = m_flowerColor T"
  by (simp add: processCommand_def Let_def split: list.split)

lemma processCommand_push:
  "processCommand T (CHR ''['') d =
     T\<lparr>m_stateStack := m_currentState T # m_stateStack T,
       m_currentState := (m_currentState T)
         \<lparr>depth := depth (m_currentState T) + 1,
          width := width (m_currentState T) * m_widthDecay T\<rparr>\<rparr>"
  by (simp add: processCommand_def drawForward_def Let_def)

lemma processCommand_pop:
  "processCommand T (CHR '']'') d =
     (case m_stateStack T of
        [] \<Rightarrow> T
      | saved # rest \<Rightarrow> T\<lparr>m_currentState := saved, m_stateStack := rest\<rparr>)"
  by (simp add: processCommand_def drawForward_def Let_def)

lemma processCommand_draw:
  "drawForward c \<Longrightarrow>
   processCommand T c d =
     T\<lparr>m_branches := m_branches T @
          [\<lparr>start = position (m_currentState T),
            end' = vadd (position (m_currentState T))
                     (vscale (heading (m_currentState T)) (m_stepSize T)),
            radiusStart = width (m_currentState T),
            radiusEnd = width (m_currentState T) * m_widthDecay T,
            b_color = color (m_currentState T)\<rparr>],
       m_currentState := (m_currentState T)
         \<lparr>position := vadd (position (m_currentState T))
                         (vscale (heading (m_currentState T)) (m_stepSize T))\<rparr>\<rparr>"
  by (simp add: processCommand_def Let_def)

lemma processCommand_stack_other:
  "c \<noteq> CHR ''['' \<Longrightarrow> c \<noteq> CHR '']'' \<Longrightarrow>
   m_stateStack (processCommand T c d) = m_stateStack T"
  by (simp add: processCommand_def Let_def)

lemma processCommand_branches:
  "length (m_branches (processCommand T c d)) =
     length (m_branches T) + (if drawForward c then 1 else 0)"
  by (simp add: processCommand_def Let_def split: list.split)

lemma processCommand_width:
  "c \<noteq> CHR '']'' \<Longrightarrow>
   width (m_currentState (processCommand T c d)) =
     (if narrows c then width (m_currentState T) * m_widthDecay T
      else width (m_currentState T))"
  by (simp add: processCommand_def Let_def narrows_def drawForward_def)

lemma last_branch_draw:
  "drawForward c \<Longrightarrow>
   radiusStart (last (m_branches (processCommand T c d))) = width (m_currentState T) \<and>
   radiusEnd (last (m_branches (processCommand T c d))) =
     width (m_currentState T) * m_widthDecay T"
  by (simp add: processCommand_draw)

lemma draw_keeps_width:
  "drawForward c \<Longrightarrow> width (m_currentState (processCommand T c d)) = width (m_currentState T)"
  by (simp add: processCommand_draw)

subsection \<open>The effect of a string\<close>

lemma processAll_config:
  "m_widthDecay (processAll T cs d) = m_widthDecay T \<and>
   m_stepSize (processAll T cs d) = m_stepSize T \<and>
   m_is3D (processAll T cs d) = m_is3D T"
  by (induction cs arbitrary: T) (simp_all add: processCommand_config)

lemma processAll_branches:
  "length (m_branches (processAll T cs d)) =
     length (m_branches T) + length (filter drawForward cs)"
  by (induction cs arbitrary: T) (simp_all add: processCommand_branches)

lemma uploadDecorationData_branches: "m_branches (uploadDecorationData T) = m_branches T"
  by (simp add: uploadDecorationData_def)

lemma drawForward_count:
  "length (filter drawForward s) =
     count_list s (CHR ''F'') + count_list s (CHR ''G'') + count_list s (CHR ''A'') +
     count_list s (CHR ''B'')"
  by (induction s) (auto simp: drawForward_def)

text \<open>
  A string that is balanced from \<open>n\<close> open brackets pops exactly the \<open>n\<close> topmost saved
  states and leaves the rest of the stack as it was.
\<close>

lemma processAll_stack:
  "balancedFrom n cs \<Longrightarrow> n \<le> length (m_stateStack T) \<Longrightarrow>
   m_stateStack (processAll T cs d) = drop n (m_stateStack T)"
proof (induction cs arbitrary: n T)
  case Nil
  then show ?case by simp
next
  case (Cons c cs)
  consider (push) "c = CHR ''[''" | (pop) "c = CHR '']''"
    | (other) "c \<noteq> CHR ''[''" "c \<noteq> CHR '']''"
    by blast
  then show ?case
  proof cases
    case push
    with Cons.prems have b: "balancedFrom (Suc n) cs" by simp
    show ?thesis
      using Cons.IH [OF b, of "processCommand T c d"] Cons.prems(2) push
      by (simp add: processCommand_push)
  next
    case pop
    with Cons.prems have n: "0 < n" and b: "balancedFrom (n - 1) cs" by simp_all
    from n Cons.prems(2) obtain saved rest where st: "m_stateStack T = saved # rest"
      by (cases "m_stateStack T") auto
    have "n - 1 \<le> length (m_stateStack (processCommand T c d))"
      using pop st Cons.prems(2) by (simp add: processCommand_pop)
    from Cons.IH [OF b this] show ?thesis
      using pop st n by (simp add: processCommand_pop drop_Cons')
  next
    case other
    with Cons.prems have b: "balancedFrom n cs" by simp
    show ?thesis
      using Cons.IH [OF b, of "processCommand T c d"] Cons.prems(2) other
      by (simp add: processCommand_stack_other)
  qed
qed

lemma bracket_group:
  assumes "balanced u"
  shows "m_currentState (processAll T (CHR ''['' # u @ '']'') d) = m_currentState T \<and>
         m_stateStack (processAll T (CHR ''['' # u @ '']'') d) = m_stateStack T"
proof -
  let ?P = "processCommand T (CHR ''['') d"
  let ?U = "processAll ?P u d"
  have "m_stateStack ?U = drop 0 (m_stateStack ?P)"
    using assms by (intro processAll_stack) (simp_all add: balanced_def)
  then have st: "m_stateStack ?U = m_currentState T # m_stateStack T"
    by (simp add: processCommand_push)
  have "processAll T (CHR ''['' # u @ '']'') d = processCommand ?U (CHR '']'') d"
    by (simp add: processAll_append)
  then show ?thesis
    using st by (simp add: processCommand_pop)
qed

text \<open>
  Without a pop, the width is the starting width times one factor \<open>m_widthDecay\<close> for each
  \<open>[\<close> and each \<open>!\<close> processed.
\<close>

lemma processAll_width:
  "CHR '']'' \<notin> set cs \<Longrightarrow>
   width (m_currentState (processAll T cs d)) =
     width (m_currentState T) * m_widthDecay T ^ length (filter narrows cs)"
proof (induction cs arbitrary: T)
  case Nil
  show ?case by simp
next
  case (Cons c cs)
  then have c: "c \<noteq> CHR '']''" and cs: "CHR '']'' \<notin> set cs" by auto
  show ?case
    unfolding processAll.simps
    by (simp add: Cons.IH [OF cs] processCommand_width [OF c] processCommand_config)
qed

subsection \<open>Claims\<close>

text \<open>
  C2. For every input string and every angle, after \<open>interpret\<close> the number of Branch
  records, \<open>getBranchCount()\<close>, is exactly the number of occurrences of the draw-forward
  symbols \<open>F\<close>, \<open>G\<close>, \<open>A\<close>, \<open>B\<close> in the string; a single command adds one record when it
  is one of these four symbols and none otherwise.
\<close>

theorem branch_count_invariant:
  "getBranchCount (interpret' T s d) =
     count_list s (CHR ''F'') + count_list s (CHR ''G'') + count_list s (CHR ''A'') +
     count_list s (CHR ''B'') \<and>
   getBranchCount (processCommand T c d) =
     getBranchCount T +
       (if c = CHR ''F'' \<or> c = CHR ''G'' \<or> c = CHR ''A'' \<or> c = CHR ''B'' then 1 else 0)"
proof -
  have "getBranchCount (interpret' T s d) = length (filter drawForward s)"
    by (simp add: getBranchCount_def interpret'_def Let_def uploadDecorationData_branches
        processAll_branches clear_def)
  moreover have "getBranchCount (processCommand T c d) =
      getBranchCount T + (if drawForward c then 1 else 0)"
    by (simp add: getBranchCount_def processCommand_branches)
  ultimately show ?thesis
    by (simp add: drawForward_count drawForward_def)
qed

text \<open>
  C3. Processing a bracketed group \<open>[ u ]\<close> with \<open>u\<close> balanced returns the turtle's
  position and orientation (heading, left, up), indeed its whole state and the stack, to
  exactly their values immediately before the \<open>[\<close>. In particular, interpreting
  \<open>F[+F][-F]F\<close> ends two step units from the origin along the initial heading, with the
  initial orientation.
\<close>

theorem bracket_balance:
  assumes "balanced u"
  shows "position (m_currentState (processAll T (CHR ''['' # u @ '']'') d))
           = position (m_currentState T) \<and>
         heading (m_currentState (processAll T (CHR ''['' # u @ '']'') d))
           = heading (m_currentState T) \<and>
         left (m_currentState (processAll T (CHR ''['' # u @ '']'') d))
           = left (m_currentState T) \<and>
         up (m_currentState (processAll T (CHR ''['' # u @ '']'') d))
           = up (m_currentState T) \<and>
         m_currentState (processAll T (CHR ''['' # u @ '']'') d) = m_currentState T \<and>
         m_stateStack (processAll T (CHR ''['' # u @ '']'') d) = m_stateStack T \<and>
         position (m_currentState (interpret' T ''F[+F][-F]F'' d))
           = Vec3 0 (2 * m_stepSize T) 0 \<and>
         heading (m_currentState (interpret' T ''F[+F][-F]F'' d)) = Vec3 0 1 0 \<and>
         left (m_currentState (interpret' T ''F[+F][-F]F'' d)) = Vec3 (- 1) 0 0 \<and>
         up (m_currentState (interpret' T ''F[+F][-F]F'' d)) = Vec3 0 0 1"
proof -
  have fork:
    "position (m_currentState (interpret' T ''F[+F][-F]F'' d)) = Vec3 0 (2 * m_stepSize T) 0 \<and>
     heading (m_currentState (interpret' T ''F[+F][-F]F'' d)) = Vec3 0 1 0 \<and>
     left (m_currentState (interpret' T ''F[+F][-F]F'' d)) = Vec3 (- 1) 0 0 \<and>
     up (m_currentState (interpret' T ''F[+F][-F]F'' d)) = Vec3 0 0 1"
    by (simp add: interpret'_def processCommand_def Let_def drawForward_def clear_def
        uploadDecorationData_def TurtleState_default_def vadd_def vscale_def)
  show ?thesis
    using bracket_group [OF assms, of T d] fork by simp
qed

theorem bracket_balance_witness:
  "balanced ''+F[-F]'' \<and>
   m_currentState (processAll (set3DMode TurtleGraphics_new True) ''[+F[-F]]'' 25)
     = m_currentState (set3DMode TurtleGraphics_new True) \<and>
   m_stateStack (processAll (set3DMode TurtleGraphics_new True) ''[+F[-F]]'' 25)
     = m_stateStack (set3DMode TurtleGraphics_new True)"
proof -
  have b: "balanced ''+F[-F]''"
    by (simp add: balanced_def)
  show ?thesis
    using b bracket_balance [OF b, of "set3DMode TurtleGraphics_new True" 25] by simp
qed

text \<open>
  C4, evaluated on the code. With the 3D-mode flag false, the pitch command \<open>&\<close> at
  90 degrees turns the heading of a fresh turtle from \<open>(0, 1, 0)\<close> to \<open>(0, 0, -1)\<close> and
  the roll command (backslash) turns its left vector from \<open>(-1, 0, 0)\<close> to \<open>(0, 0, 1)\<close>:
  none of the four pitch and roll commands is a no-op in 2D mode.
\<close>

theorem pitch_roll_in_2D_mode:
  "m_is3D TurtleGraphics_new = False \<and>
   heading (m_currentState TurtleGraphics_new) = Vec3 0 1 0 \<and>
   heading (m_currentState (processCommand TurtleGraphics_new (CHR ''&'') 90)) = Vec3 0 0 (- 1) \<and>
   left (m_currentState TurtleGraphics_new) = Vec3 (- 1) 0 0 \<and>
   left (m_currentState (processCommand TurtleGraphics_new (CHR 0x5C) 90)) = Vec3 0 0 1 \<and>
   processCommand TurtleGraphics_new (CHR ''&'') 90 \<noteq> TurtleGraphics_new \<and>
   processCommand TurtleGraphics_new (CHR ''^'') 90 \<noteq> TurtleGraphics_new \<and>
   processCommand TurtleGraphics_new (CHR 0x5C) 90 \<noteq> TurtleGraphics_new \<and>
   processCommand TurtleGraphics_new (CHR ''/'') 90 \<noteq> TurtleGraphics_new"
proof -
  have r: "radians 90 = pi / 2" "radians (- 90) = - (pi / 2)"
    by (simp_all add: radians_def)
  have rot:
    "rotateAroundAxis (Vec3 0 1 0) (Vec3 (- 1) 0 0) 90 = Vec3 0 0 (- 1)"
    "rotateAroundAxis (Vec3 0 1 0) (Vec3 (- 1) 0 0) (- 90) = Vec3 0 0 1"
    "rotateAroundAxis (Vec3 (- 1) 0 0) (Vec3 0 1 0) 90 = Vec3 0 0 1"
    "rotateAroundAxis (Vec3 (- 1) 0 0) (Vec3 0 1 0) (- 90) = Vec3 0 0 (- 1)"
    by (simp_all add: rotateAroundAxis_def r normalize3_def dot_def cross_def vadd_def
        vscale_def)
  have h:
    "heading (m_currentState (processCommand TurtleGraphics_new (CHR ''&'') 90)) = Vec3 0 0 (- 1)"
    "heading (m_currentState (processCommand TurtleGraphics_new (CHR ''^'') 90)) = Vec3 0 0 1"
    "left (m_currentState (processCommand TurtleGraphics_new (CHR 0x5C) 90)) = Vec3 0 0 1"
    "left (m_currentState (processCommand TurtleGraphics_new (CHR ''/'') 90)) = Vec3 0 0 (- 1)"
    by (simp_all add: processCommand_def drawForward_def Let_def TurtleGraphics_new_def
        TurtleState_default_def rot)
  have o: "heading (m_currentState TurtleGraphics_new) = Vec3 0 1 0"
    "left (m_currentState TurtleGraphics_new) = Vec3 (- 1) 0 0"
    "m_is3D TurtleGraphics_new = False"
    by (simp_all add: TurtleGraphics_new_def TurtleState_default_def)
  have "processCommand TurtleGraphics_new (CHR ''&'') 90 \<noteq> TurtleGraphics_new"
    using h(1) o(1) by auto
  moreover have "processCommand TurtleGraphics_new (CHR ''^'') 90 \<noteq> TurtleGraphics_new"
    using h(2) o(1) by auto
  moreover have "processCommand TurtleGraphics_new (CHR 0x5C) 90 \<noteq> TurtleGraphics_new"
    using h(3) o(2) by auto
  moreover have "processCommand TurtleGraphics_new (CHR ''/'') 90 \<noteq> TurtleGraphics_new"
    using h(4) o(2) by auto
  ultimately show ?thesis
    using h(1) h(3) o by simp
qed

text \<open>
  C7. Processing \<open>]\<close> while the state stack is empty is a no-op: the whole interpreter
  (current state, stack, all geometry emitted so far) is unchanged, and the rest of the
  string is processed as if the \<open>]\<close> were not there; a string that starts with \<open>]\<close> is
  interpreted like the string without it.
\<close>

theorem dangling_bracket_ignored:
  assumes "m_stateStack T = []"
  shows "processCommand T (CHR '']'') d = T \<and>
         processAll T (CHR '']'' # rest) d = processAll T rest d \<and>
         interpret' T (CHR '']'' # rest) d = interpret' T rest d"
  using assms by (simp add: processCommand_pop interpret'_def Let_def clear_def)

theorem dangling_bracket_ignored_witness:
  "m_stateStack TurtleGraphics_new = [] \<and>
   processCommand TurtleGraphics_new (CHR '']'') 25 = TurtleGraphics_new \<and>
   processAll TurtleGraphics_new '']F'' 25 = processAll TurtleGraphics_new ''F'' 25 \<and>
   interpret' TurtleGraphics_new '']F'' 25 = interpret' TurtleGraphics_new ''F'' 25"
proof -
  have e: "m_stateStack TurtleGraphics_new = []"
    by (simp add: TurtleGraphics_new_def)
  show ?thesis
    using e dangling_bracket_ignored [OF e, of 25 "''F''"] by simp
qed

text \<open>
  C9, as the code behaves. Take a draw-forward command \<open>c1\<close>, then any commands \<open>mid\<close>
  without a pop, then a draw-forward command \<open>c2\<close>, with \<open>0 \<le> widthDecay \<le> 1\<close> and a
  non-negative current width. The start radius of the later branch is the start radius
  of the earlier one times one factor \<open>widthDecay\<close> for each \<open>[\<close> and \<open>!\<close> in between, so
  it never increases; and when at least one push lies in between it is at most the end
  radius of the enclosing branch (which is its start radius times \<open>widthDecay\<close>), with
  equality when \<open>mid\<close> is a single push.
\<close>

theorem width_decay_monotone:
  assumes "0 \<le> m_widthDecay T" and "m_widthDecay T \<le> 1" and "0 \<le> width (m_currentState T)"
    and "drawForward c1" and "drawForward c2" and "CHR '']'' \<notin> set mid"
  shows "(let T1 = processCommand T c1 d;
              T2 = processAll T1 (mid @ [c2]) d;
              outer = last (m_branches T1);
              inner = last (m_branches T2)
          in radiusStart inner = radiusStart outer * m_widthDecay T ^ length (filter narrows mid) \<and>
             radiusEnd outer = radiusStart outer * m_widthDecay T \<and>
             radiusStart inner \<le> radiusStart outer \<and>
             (CHR ''['' \<in> set mid \<longrightarrow> radiusStart inner \<le> radiusEnd outer) \<and>
             (mid = ''['' \<longrightarrow> radiusStart inner = radiusEnd outer))"
proof -
  let ?w = "width (m_currentState T)" and ?q = "m_widthDecay T"
  let ?k = "length (filter narrows mid)"
  let ?T1 = "processCommand T c1 d"
  let ?M = "processAll ?T1 mid d"
  have split: "processAll ?T1 (mid @ [c2]) d = processCommand ?M c2 d"
    by (simp add: processAll_append)
  have wM: "width (m_currentState ?M) = ?w * ?q ^ ?k"
    using processAll_width [OF assms(6), of ?T1 d] draw_keeps_width [OF assms(4), of T d]
    by (simp add: processCommand_config)
  have inner: "radiusStart (last (m_branches (processAll ?T1 (mid @ [c2]) d))) = ?w * ?q ^ ?k"
    unfolding split using last_branch_draw [OF assms(5), of ?M d] wM by simp
  have outer: "radiusStart (last (m_branches ?T1)) = ?w"
    "radiusEnd (last (m_branches ?T1)) = ?w * ?q"
    using last_branch_draw [OF assms(4), of T d] by simp_all
  have pow1: "?q ^ ?k \<le> 1"
    using assms(1,2) by (rule power_le_one)
  have le1: "?w * ?q ^ ?k \<le> ?w"
    using mult_left_mono [OF pow1 assms(3)] by simp
  have le2: "?w * ?q ^ ?k \<le> ?w * ?q" if "CHR ''['' \<in> set mid"
  proof -
    from that have "filter narrows mid \<noteq> []"
      by (auto simp: filter_empty_conv narrows_def)
    then obtain j where j: "?k = Suc j"
      by (cases "filter narrows mid") auto
    have "?q ^ j \<le> 1" using assms(1,2) by (rule power_le_one)
    then have "?q * ?q ^ j \<le> ?q * 1"
      using assms(1) by (rule mult_left_mono)
    then have "?q ^ ?k \<le> ?q" by (simp add: j)
    then show ?thesis using assms(3) by (rule mult_left_mono)
  qed
  have eq: "?w * ?q ^ ?k = ?w * ?q" if "mid = ''[''"
    using that by (simp add: narrows_def)
  show ?thesis
    unfolding Let_def inner outer using le1 le2 eq by simp
qed

theorem width_decay_monotone_witness:
  "0 \<le> m_widthDecay TurtleGraphics_new \<and> m_widthDecay TurtleGraphics_new \<le> 1 \<and>
   0 \<le> width (m_currentState TurtleGraphics_new) \<and> drawForward (CHR ''F'') \<and>
   drawForward (CHR ''A'') \<and> CHR '']'' \<notin> set ''[+!'' \<and>
   radiusStart (last (m_branches (processAll TurtleGraphics_new ''F[+!A'' 25)))
     \<le> radiusEnd (last (m_branches (processCommand TurtleGraphics_new (CHR ''F'') 25)))"
proof -
  have h: "0 \<le> m_widthDecay TurtleGraphics_new" "m_widthDecay TurtleGraphics_new \<le> 1"
    "0 \<le> width (m_currentState TurtleGraphics_new)" "drawForward (CHR ''F'')"
    "drawForward (CHR ''A'')" "CHR '']'' \<notin> set ''[+!''"
    by (simp_all add: TurtleGraphics_new_def TurtleState_default_def drawForward_def)
  have "radiusStart (last (m_branches
          (processAll (processCommand TurtleGraphics_new (CHR ''F'') 25) (''[+!'' @ ''A'') 25)))
        \<le> radiusEnd (last (m_branches (processCommand TurtleGraphics_new (CHR ''F'') 25)))"
    using width_decay_monotone [OF h, of 25] by (simp add: Let_def)
  then show ?thesis
    using h by simp
qed

text \<open>
  C9, as stated, fails. With the default configuration (width 0.02, decay 0.7) the string
  \<open>F[F\<close> gives an enclosing branch of end radius 0.014 and an inner branch of start radius
  0.014, which is not at most 0.014 times 0.7; and with a decay of 2, which the setter
  accepts, the start radius grows from one nesting level to the next.
\<close>

theorem width_decay_counterexample:
  "(let bs = m_branches (interpret' TurtleGraphics_new ''F[F'' 0)
    in length bs = 2 \<and> radiusEnd (bs ! 0) = 0.014 \<and> radiusStart (bs ! 1) = 0.014 \<and>
       \<not> radiusStart (bs ! 1) \<le> radiusEnd (bs ! 0) * m_widthDecay TurtleGraphics_new) \<and>
   (let bs = m_branches (interpret' (setWidthDecay TurtleGraphics_new 2) ''F[F'' 0)
    in length bs = 2 \<and> \<not> radiusStart (bs ! 1) \<le> radiusStart (bs ! 0))"
  by (simp add: interpret'_def processCommand_def Let_def drawForward_def clear_def
      uploadDecorationData_def TurtleState_default_def TurtleGraphics_new_def setWidthDecay_def)

text \<open>
  C10, as the code behaves. A draw-forward command changes only the position, which
  advances by heading times step size, and appends one Branch record; heading, left, up,
  width, colour and depth, the stack and the decorations are unchanged. The tapered end
  radius is not written back to the width, so a later draw-forward command with no
  \<open>[\<close>, \<open>]\<close> or \<open>!\<close> in between emits a segment with the same start and end radii.
\<close>

theorem draw_forward_frame:
  assumes "drawForward c1" and "drawForward c2"
    and "CHR ''['' \<notin> set mid" and "CHR '']'' \<notin> set mid" and "CHR ''!'' \<notin> set mid"
  shows "(let st = m_currentState T;
              T1 = processCommand T c1 d;
              st1 = m_currentState T1;
              T2 = processAll T1 (mid @ [c2]) d
          in position st1 = vadd (position st) (vscale (heading st) (m_stepSize T)) \<and>
             heading st1 = heading st \<and> left st1 = left st \<and> up st1 = up st \<and>
             width st1 = width st \<and> color st1 = color st \<and> depth st1 = depth st \<and>
             m_stateStack T1 = m_stateStack T \<and> m_decorations T1 = m_decorations T \<and>
             m_branches T1 = m_branches T @
               [\<lparr>start = position st, end' = position st1, radiusStart = width st,
                 radiusEnd = width st * m_widthDecay T, b_color = color st\<rparr>] \<and>
             radiusStart (last (m_branches T2)) = radiusStart (last (m_branches T1)) \<and>
             radiusEnd (last (m_branches T2)) = radiusEnd (last (m_branches T1)))"
proof -
  let ?T1 = "processCommand T c1 d"
  let ?M = "processAll ?T1 mid d"
  have none: "filter narrows mid = []"
    using assms(3,5) by (auto simp: filter_empty_conv narrows_def)
  have split: "processAll ?T1 (mid @ [c2]) d = processCommand ?M c2 d"
    by (simp add: processAll_append)
  have wM: "width (m_currentState ?M) = width (m_currentState T)"
    using processAll_width [OF assms(4), of ?T1 d] draw_keeps_width [OF assms(1), of T d]
    by (simp add: none)
  have qM: "m_widthDecay ?M = m_widthDecay T"
    by (simp add: processAll_config processCommand_config)
  have later: "radiusStart (last (m_branches (processAll ?T1 (mid @ [c2]) d)))
                 = width (m_currentState T)"
    "radiusEnd (last (m_branches (processAll ?T1 (mid @ [c2]) d)))
                 = width (m_currentState T) * m_widthDecay T"
    unfolding split using last_branch_draw [OF assms(2), of ?M d] wM qM by simp_all
  show ?thesis
    unfolding Let_def later by (simp add: processCommand_draw [OF assms(1)])
qed

theorem draw_forward_frame_witness:
  "drawForward (CHR ''F'') \<and> drawForward (CHR ''G'') \<and>
   CHR ''['' \<notin> set ''+f'' \<and> CHR '']'' \<notin> set ''+f'' \<and> CHR ''!'' \<notin> set ''+f'' \<and>
   width (m_currentState (processCommand TurtleGraphics_new (CHR ''F'') 25))
     = width (m_currentState TurtleGraphics_new) \<and>
   radiusStart (last (m_branches (processAll TurtleGraphics_new ''F+fG'' 25)))
     = radiusStart (last (m_branches (processCommand TurtleGraphics_new (CHR ''F'') 25)))"
proof -
  have h: "drawForward (CHR ''F'')" "drawForward (CHR ''G'')"
    "CHR ''['' \<notin> set ''+f''" "CHR '']'' \<notin> set ''+f''" "CHR ''!'' \<notin> set ''+f''"
    by (simp_all add: drawForward_def)
  have "width (m_currentState (processCommand TurtleGraphics_new (CHR ''F'') 25))
          = width (m_currentState TurtleGraphics_new) \<and>
        radiusStart (last (m_branches
          (processAll (processCommand TurtleGraphics_new (CHR ''F'') 25) (''+f'' @ ''G'') 25)))
          = radiusStart (last (m_branches (processCommand TurtleGraphics_new (CHR ''F'') 25)))"
    using draw_forward_frame [OF h, of TurtleGraphics_new 25] by (simp add: Let_def)
  then show ?thesis
    using h by simp
qed

text \<open>
  C10, as stated, fails on its last sentence. In \<open>[F]F\<close> the two draw-forward commands
  are consecutive and neither \<open>[\<close> nor \<open>!\<close> lies between them, only \<open>]\<close>, which restores
  the width saved by the push: the first segment has radii 0.014 and 0.0098, the second
  0.02 and 0.014.
\<close>

theorem draw_forward_frame_counterexample:
  "(let bs = m_branches (interpret' TurtleGraphics_new ''[F]F'' 0)
    in length bs = 2 \<and> radiusStart (bs ! 0) = 0.014 \<and> radiusStart (bs ! 1) = 0.02 \<and>
       radiusStart (bs ! 0) \<noteq> radiusStart (bs ! 1) \<and>
       radiusEnd (bs ! 0) \<noteq> radiusEnd (bs ! 1)) \<and>
   CHR ''['' \<notin> set '']'' \<and> CHR ''!'' \<notin> set '']''"
  by (simp add: interpret'_def processCommand_def Let_def drawForward_def clear_def
      uploadDecorationData_def TurtleState_default_def TurtleGraphics_new_def)

end
